theory Spec2Isabelle
  imports Complex_Main
begin

section \<open>Python values\<close>

text \<open>
  The profile records come out of \<^verbatim>\<open>json.load\<close>, so a field may hold any JSON value:
  the dataclass annotations of \<^verbatim>\<open>main_window.py\<close> are not enforced at run time.
  A JSON object is an association list read with first-match lookup. Strings are lists of
  8-bit characters, read as code points below 256. A float is the rational it denotes;
  the non-finite floats (\<^verbatim>\<open>NaN\<close>, \<^verbatim>\<open>Infinity\<close>) that \<^verbatim>\<open>json.load\<close> accepts as an
  extension are not represented.
\<close>

datatype json =
    JNull
  | JBool bool
  | JInt int
  | JFloat rat
  | JStr string
  | JList "json list"
  | JObj "(string \<times> json) list"

datatype py_error =
    TypeError
  | ValueError
  | AttributeError
  | IndexError
  | JSONDecodeError

text \<open>Python truthiness: \<^verbatim>\<open>bool(x)\<close>, and the test of \<^verbatim>\<open>not x\<close> and \<^verbatim>\<open>x or y\<close>.\<close>

fun truthy :: "json \<Rightarrow> bool" where
  "truthy JNull = False"
| "truthy (JBool b) = b"
| "truthy (JInt n) = (n \<noteq> 0)"
| "truthy (JFloat r) = (r \<noteq> 0)"
| "truthy (JStr s) = (s \<noteq> [])"
| "truthy (JList xs) = (xs \<noteq> [])"
| "truthy (JObj kvs) = (kvs \<noteq> [])"

text \<open>\<^verbatim>\<open>d.get(k, default)\<close> on a dict.\<close>

definition dict_get :: "(string \<times> json) list \<Rightarrow> string \<Rightarrow> json \<Rightarrow> json" where
  "dict_get d k dflt = (case map_of d k of None \<Rightarrow> dflt | Some v \<Rightarrow> v)"

subsection \<open>Decimal text of an integer\<close>

definition digit_char :: "nat \<Rightarrow> char" where
  "digit_char n = ''0123456789'' ! (n mod 10)"

fun str_nat :: "nat \<Rightarrow> string" where
  "str_nat n = (if n < 10 then [digit_char n] else str_nat (n div 10) @ [digit_char n])"

declare str_nat.simps [simp del]

text \<open>\<^verbatim>\<open>str(n)\<close> of an int, as an f-string renders it.\<close>

definition str_int :: "int \<Rightarrow> string" where
  "str_int i = (if i < 0 then CHR ''-'' # str_nat (nat (- i)) else str_nat (nat i))"

subsection \<open>Whitespace and \<^verbatim>\<open>int()\<close> of text\<close>

text \<open>
  The characters below 256 for which \<^verbatim>\<open>str.isspace\<close> holds: tab to carriage return,
  the four separators 28 to 31, space, NEL and the no-break space.
\<close>

definition is_space :: "char \<Rightarrow> bool" where
  "is_space c = ((of_char c :: nat) \<in> {9, 10, 11, 12, 13, 28, 29, 30, 31, 32, 133, 160})"

text \<open>\<^verbatim>\<open>s.strip()\<close>.\<close>

definition strip :: "string \<Rightarrow> string" where
  "strip s = rev (dropWhile is_space (rev (dropWhile is_space s)))"

definition is_digit :: "char \<Rightarrow> bool" where
  "is_digit c = (48 \<le> (of_char c :: nat) \<and> (of_char c :: nat) \<le> 57)"

definition digit_val :: "char \<Rightarrow> nat" where
  "digit_val c = (of_char c :: nat) - 48"

text \<open>
  The digits of a decimal literal after its first digit: a single underscore may stand
  between two digits.
\<close>

fun int_digits :: "nat \<Rightarrow> string \<Rightarrow> nat option" where
  "int_digits acc [] = Some acc"
| "int_digits acc [c] = (if is_digit c then Some (10 * acc + digit_val c) else None)"
| "int_digits acc (c # d # ds) =
     (if is_digit c then int_digits (10 * acc + digit_val c) (d # ds)
      else if c = CHR ''_'' \<and> is_digit d then int_digits (10 * acc + digit_val d) ds
      else None)"

text \<open>
  The whitespace that \<^verbatim>\<open>int()\<close> drops around a literal is narrower than that of
  \<^verbatim>\<open>str.strip\<close>: the ASCII characters tab to carriage return and space, and, of the
  characters from 128 on, NEL and the no-break space, which the conversion first turns
  into spaces. The separators 28 to 31 stay and make the literal invalid.
\<close>

definition is_int_space :: "char \<Rightarrow> bool" where
  "is_int_space c = ((of_char c :: nat) \<in> {9, 10, 11, 12, 13, 32, 133, 160})"

definition int_strip :: "string \<Rightarrow> string" where
  "int_strip s = rev (dropWhile is_int_space (rev (dropWhile is_int_space s)))"

text \<open>The default of \<^verbatim>\<open>sys.int_max_str_digits\<close>: a longer literal is refused.\<close>

definition int_max_str_digits :: nat where
  "int_max_str_digits = 4300"

text \<open>
  \<^verbatim>\<open>int(s)\<close> of a string, base 10: surrounding whitespace is dropped, one sign is allowed,
  and anything else than a decimal literal of at most \<^verbatim>\<open>int_max_str_digits\<close> digits
  raises \<^verbatim>\<open>ValueError\<close>.
\<close>

definition py_int_str :: "string \<Rightarrow> py_error + int" where
  "py_int_str s =
     (let t = int_strip s;
          neg = (case t of [] \<Rightarrow> False | c # _ \<Rightarrow> c = CHR ''-'');
          u = (case t of [] \<Rightarrow> [] | c # r \<Rightarrow> if c = CHR ''-'' \<or> c = CHR ''+'' then r else t)
      in case u of
           [] \<Rightarrow> Inl ValueError
         | c # cs \<Rightarrow>
             if is_digit c then
               (case int_digits (digit_val c) cs of
                  None \<Rightarrow> Inl ValueError
                | Some n \<Rightarrow>
                    if int_max_str_digits < length (filter is_digit u) then Inl ValueError
                    else Inr (if neg then - int n else int n))
             else Inl ValueError)"

text \<open>\<^verbatim>\<open>int(x)\<close> of a JSON value; a float is truncated towards zero.\<close>

fun py_int :: "json \<Rightarrow> py_error + int" where
  "py_int JNull = Inl TypeError"
| "py_int (JBool b) = Inr (if b then 1 else 0)"
| "py_int (JInt n) = Inr n"
| "py_int (JFloat r) = Inr (if 0 \<le> r then \<lfloor>r\<rfloor> else \<lceil>r\<rceil>)"
| "py_int (JStr s) = py_int_str s"
| "py_int (JList xs) = Inl TypeError"
| "py_int (JObj kvs) = Inl TypeError"

text \<open>
  What an f-string puts for \<^verbatim>\<open>{x}\<close>. The text of a float, a list or a dict is the
  interpreter's \<^verbatim>\<open>repr\<close>, taken as the parameter \<open>other\<close>.
\<close>

definition py_format :: "(json \<Rightarrow> string) \<Rightarrow> json \<Rightarrow> string" where
  "py_format other v =
     (case v of
        JStr s \<Rightarrow> s
      | JInt n \<Rightarrow> str_int n
      | JBool b \<Rightarrow> (if b then ''True'' else ''False'')
      | JNull \<Rightarrow> ''None''
      | _ \<Rightarrow> other v)"

text \<open>
  \<^verbatim>\<open>os.path.join(a, b)\<close> depends on the platform, so the functions below take it as the
  parameter \<open>join\<close>; it raises \<^verbatim>\<open>TypeError\<close> on every platform when \<open>b\<close> is not text.
\<close>

definition os_path_join :: "(string \<Rightarrow> string \<Rightarrow> string) \<Rightarrow> string \<Rightarrow> json \<Rightarrow> py_error + json" where
  "os_path_join join a b = (case b of JStr s \<Rightarrow> Inr (JStr (join a s)) | _ \<Rightarrow> Inl TypeError)"

text \<open>The two-argument \<^verbatim>\<open>posixpath.join\<close>, one instance of \<open>join\<close>.\<close>

definition posixpath_join :: "string \<Rightarrow> string \<Rightarrow> string" where
  "posixpath_join a b =
     (if b \<noteq> [] \<and> hd b = CHR ''/'' then b
      else if a = [] \<or> last a = CHR ''/'' then a @ b
      else a @ ''/'' @ b)"

text \<open>The literal \<^verbatim>\<open>"C:\\"\<close>: three characters, the last a backslash.\<close>

definition root_dir :: string where
  "root_dir = ''C:'' @ [CHR 0x5C]"

section \<open>Data models\<close>

record ProxyConfig =
  host :: json
  port :: int
  username :: json
  password :: json

record Profile =
  name :: json
  viewport_width :: int
  viewport_height :: int
  fullscreen :: bool
  persistent_dir :: json
  use_geoip :: bool
  proxy :: ProxyConfig

text \<open>\<^verbatim>\<open>ProxyConfig()\<close> and \<^verbatim>\<open>Profile()\<close> with the dataclass defaults.\<close>

definition ProxyConfig_default :: ProxyConfig where
  "ProxyConfig_default = \<lparr>host = JStr [], port = 0, username = JStr [], password = JStr []\<rparr>"

definition Profile_default :: Profile where
  "Profile_default =
     \<lparr>name = JStr ''Profile'', viewport_width = 1280, viewport_height = 800,
      fullscreen = False, persistent_dir = JStr [], use_geoip = False,
      proxy = ProxyConfig_default\<rparr>"

text \<open>
  \<^verbatim>\<open>ProxyConfig.to_proxy_dict\<close>: \<open>None\<close> when host or port is falsy, else the dict with
  its keys in insertion order.
\<close>

definition to_proxy_dict :: "(json \<Rightarrow> string) \<Rightarrow> ProxyConfig \<Rightarrow> (string \<times> json) list option" where
  "to_proxy_dict other c =
     (if \<not> truthy (host c) \<or> \<not> (port c \<noteq> 0) then None
      else
        (let d0 = [(''server'', JStr (''http://'' @ py_format other (host c) @ '':'' @ str_int (port c)))];
             d1 = (if truthy (username c) then d0 @ [(''username'', username c)] else d0);
             d2 = (if truthy (password c) then d1 @ [(''password'', password c)] else d1)
         in Some d2))"

text \<open>\<^verbatim>\<open>asdict(self.proxy)\<close>.\<close>

definition proxy_asdict :: "ProxyConfig \<Rightarrow> json" where
  "proxy_asdict c =
     JObj [(''host'', host c), (''port'', JInt (port c)),
           (''username'', username c), (''password'', password c)]"

text \<open>\<^verbatim>\<open>Profile.to_dict\<close>: the fields in declaration order, the proxy as a nested dict.\<close>

definition to_dict :: "Profile \<Rightarrow> json" where
  "to_dict p =
     JObj [(''name'', name p),
           (''viewport_width'', JInt (viewport_width p)),
           (''viewport_height'', JInt (viewport_height p)),
           (''fullscreen'', JBool (fullscreen p)),
           (''persistent_dir'', persistent_dir p),
           (''use_geoip'', JBool (use_geoip p)),
           (''proxy'', proxy_asdict (proxy p))]"

text \<open>
  \<^verbatim>\<open>Profile.from_dict\<close>. The calls that can raise are taken in the order the source
  evaluates them: the join for an empty storage path, then the \<^verbatim>\<open>int()\<close> of the two
  viewport fields, then the \<^verbatim>\<open>int()\<close> of the proxy port. A value that is no dict has no
  \<^verbatim>\<open>get\<close> and raises \<^verbatim>\<open>AttributeError\<close>.
\<close>

definition from_dict :: "(string \<Rightarrow> string \<Rightarrow> string) \<Rightarrow> json \<Rightarrow> py_error + Profile" where
  "from_dict join x =
     (case x of
        JObj d \<Rightarrow>
          (let raw_proxy = (case dict_get d ''proxy'' (JObj []) of JObj rp \<Rightarrow> rp | _ \<Rightarrow> []);
               nm = dict_get d ''name'' (JStr ''Profile'');
               pd0 = dict_get d ''persistent_dir'' (JStr [])
           in case (if \<not> truthy pd0 then os_path_join join root_dir nm else Inr pd0) of
                Inl e \<Rightarrow> Inl e
              | Inr pd \<Rightarrow>
             (case py_int (dict_get d ''viewport_width'' (JInt 1280)) of
                Inl e \<Rightarrow> Inl e
              | Inr w \<Rightarrow>
             (case py_int (dict_get d ''viewport_height'' (JInt 800)) of
                Inl e \<Rightarrow> Inl e
              | Inr h \<Rightarrow>
             (case py_int (let v = dict_get raw_proxy ''port'' (JInt 0)
                           in if truthy v then v else JInt 0) of
                Inl e \<Rightarrow> Inl e
              | Inr pt \<Rightarrow>
                  Inr \<lparr>name = nm, viewport_width = w, viewport_height = h,
                       fullscreen = truthy (dict_get d ''fullscreen'' (JBool False)),
                       persistent_dir = pd,
                       use_geoip = truthy (dict_get d ''use_geoip'' (JBool False)),
                       proxy = \<lparr>host = dict_get raw_proxy ''host'' (JStr []),
                                port = pt,
                                username = dict_get raw_proxy ''username'' (JStr []),
                                password = dict_get raw_proxy ''password'' (JStr [])\<rparr>\<rparr>))))
      | _ \<Rightarrow> Inl AttributeError)"

section \<open>Persistence\<close>

text \<open>
  The file \<^verbatim>\<open>profiles.json\<close> is its text when it exists. \<^verbatim>\<open>json.load\<close> and
  \<^verbatim>\<open>json.dump\<close> are the parameters \<open>loads\<close> (\<open>None\<close> when the text is no JSON and
  \<^verbatim>\<open>JSONDecodeError\<close> is raised) and \<open>dumps\<close>. Failures of the file system itself are
  not modelled.
\<close>

text \<open>
  \<^verbatim>\<open>for x in raw\<close>: a list gives its items, a dict its keys, a string its characters;
  nothing else can be iterated.
\<close>

fun py_iter :: "json \<Rightarrow> py_error + json list" where
  "py_iter (JList xs) = Inr xs"
| "py_iter (JObj kvs) = Inr (map JStr (remdups (map fst kvs)))"
| "py_iter (JStr s) = Inr (map (\<lambda>c. JStr [c]) s)"
| "py_iter JNull = Inl TypeError"
| "py_iter (JBool b) = Inl TypeError"
| "py_iter (JInt n) = Inl TypeError"
| "py_iter (JFloat r) = Inl TypeError"

text \<open>The list comprehension of \<^verbatim>\<open>load_profiles\<close>: the first record that raises ends it.\<close>

fun from_dict_all :: "(string \<Rightarrow> string \<Rightarrow> string) \<Rightarrow> json list \<Rightarrow> py_error + Profile list" where
  "from_dict_all join [] = Inr []"
| "from_dict_all join (x # xs) =
     (case from_dict join x of
        Inl e \<Rightarrow> Inl e
      | Inr p \<Rightarrow> (case from_dict_all join xs of Inl e \<Rightarrow> Inl e | Inr ps \<Rightarrow> Inr (p # ps)))"

definition load_profiles ::
  "(string \<Rightarrow> json option) \<Rightarrow> (string \<Rightarrow> string \<Rightarrow> string) \<Rightarrow> string option \<Rightarrow> py_error + Profile list" where
  "load_profiles loads join file =
     (case file of
        None \<Rightarrow> Inr []
      | Some txt \<Rightarrow>
          (case loads txt of
             None \<Rightarrow> Inl JSONDecodeError
           | Some raw \<Rightarrow>
               (case py_iter raw of Inl e \<Rightarrow> Inl e | Inr xs \<Rightarrow> from_dict_all join xs)))"

text \<open>\<^verbatim>\<open>save_profiles\<close>: the new text of the file.\<close>

definition save_profiles :: "(json \<Rightarrow> string) \<Rightarrow> Profile list \<Rightarrow> string option" where
  "save_profiles dumps ps = Some (dumps (JList (map to_dict ps)))"

section \<open>Worker thread\<close>

datatype signal = Started_ok string | Error string | Stopped string

definition squote :: string where
  "squote = [CHR 0x27]"

text \<open>
  The fields of a worker. Its profile is the object of the list slot it was launched
  from; the editing controls are disabled until the \<^verbatim>\<open>stopped\<close> signal arrives, so the
  worker is given the value the profile has at the launch.
\<close>

record CamoufoxWorker =
  profile :: Profile
  launch_size :: "(int \<times> int) option"
  stop_flag :: bool

text \<open>The keyword arguments of \<^verbatim>\<open>Camoufox(**opts)\<close>; an absent key is \<open>None\<close>.\<close>

record Opts =
  headless :: bool
  window :: "int \<times> int"
  persistent_context :: "bool option"
  user_data_dir :: "string option"
  opt_proxy :: "(string \<times> json) list option"
  geoip :: "bool option"

text \<open>
  What the world outside the worker does during one session. An exception is the text
  \<^verbatim>\<open>str(e)\<close> of an instance of \<^verbatim>\<open>Exception\<close>, the only kind the source catches;
  \<open>None\<close> means the call returns.
  \<open>pages_open\<close> is the number of pages the context already has, or the exception that
  reading them raises. \<open>sleeps k\<close> is what the \<open>k\<close>-th turn of the idle loop meets: the
  stop flag set by the other thread, a sleep that returns, or a sleep that raises.
\<close>

datatype idle_event = Stop_seen | Slept | Sleep_raises string

record session_env =
  os_makedirs :: "json \<Rightarrow> string option"
  os_abspath :: "json \<Rightarrow> string + string"
  camoufox_enter :: "Opts \<Rightarrow> string option"
  pages_open :: "string + nat"
  new_page :: "string option"
  sleeps :: "nat \<Rightarrow> idle_event"
  ctx_close :: "string option"

text \<open>Line 114: the size the worker works with.\<close>

definition worker_size :: "'a CamoufoxWorker_scheme \<Rightarrow> int \<times> int" where
  "worker_size w =
     (case launch_size w of
        Some wh \<Rightarrow> wh
      | None \<Rightarrow> (viewport_width (profile w), viewport_height (profile w)))"

text \<open>Lines 115 to 118: the options every launch starts from.\<close>

definition base_opts :: "'a CamoufoxWorker_scheme \<Rightarrow> Opts" where
  "base_opts w =
     \<lparr>headless = False,
      window = (fst (worker_size w) + 2, snd (worker_size w) + 88),
      persistent_context = None, user_data_dir = None, opt_proxy = None, geoip = None\<rparr>"

text \<open>Lines 120 to 129: storage, proxy and geo-IP; \<open>Inl\<close> is the text of an exception.\<close>

definition worker_opts :: "(json \<Rightarrow> string) \<Rightarrow> session_env \<Rightarrow> 'a CamoufoxWorker_scheme \<Rightarrow> string + Opts" where
  "worker_opts other env w =
     (let o0 = base_opts w;
          dir = persistent_dir (profile w);
          r1 = (if truthy dir then
                  (case os_makedirs env dir of
                     Some m \<Rightarrow> Inl m
                   | None \<Rightarrow>
                       (case os_abspath env dir of
                          Inl m \<Rightarrow> Inl m
                        | Inr a \<Rightarrow> Inr (o0\<lparr>persistent_context := Some True, user_data_dir := Some a\<rparr>)))
                else Inr o0)
      in case r1 of
           Inl m \<Rightarrow> Inl m
         | Inr o1 \<Rightarrow>
             (case to_proxy_dict other (proxy (profile w)) of
                None \<Rightarrow> Inr o1
              | Some px \<Rightarrow>
                  Inr (if use_geoip (profile w)
                       then o1\<lparr>opt_proxy := Some px, geoip := Some True\<rparr>
                       else o1\<lparr>opt_proxy := Some px\<rparr>)))"

text \<open>
  The loop \<^verbatim>\<open>while not self._stop: time.sleep(0.2)\<close> from its \<open>k\<close>-th turn on:
  \<open>Some None\<close> when the flag is seen, \<open>Some (Some m)\<close> when the sleep raises, and
  no value when neither ever happens.
\<close>

partial_function (option) idle_loop :: "(nat \<Rightarrow> idle_event) \<Rightarrow> nat \<Rightarrow> string option option" where
  "idle_loop ev k =
     (case ev k of
        Stop_seen \<Rightarrow> Some None
      | Sleep_raises m \<Rightarrow> Some (Some m)
      | Slept \<Rightarrow> idle_loop ev (Suc k))"

text \<open>
  The \<^verbatim>\<open>try\<close> block of \<^verbatim>\<open>run\<close>: the signals it emits, whether \<^verbatim>\<open>self._ctx\<close> was
  set, and the exception that left it, if one did. The calls whose exceptions the
  source swallows (closing extra pages, the viewport, the F11 key) leave no trace.
\<close>

definition run_try ::
  "(json \<Rightarrow> string) \<Rightarrow> session_env \<Rightarrow> 'a CamoufoxWorker_scheme \<Rightarrow> (signal list \<times> bool \<times> string option) option" where
  "run_try other env w =
     (case worker_opts other env w of
        Inl m \<Rightarrow> Some ([], False, Some m)
      | Inr opts \<Rightarrow>
          (case camoufox_enter env opts of
             Some m \<Rightarrow> Some ([], False, Some m)
           | None \<Rightarrow>
               (case pages_open env of
                  Inl m \<Rightarrow> Some ([], True, Some m)
                | Inr n \<Rightarrow>
                    (if n = 0 \<and> new_page env \<noteq> None
                     then Some ([], True, new_page env)
                     else
                       (case idle_loop (if stop_flag w then (\<lambda>k. Stop_seen) else sleeps env) 0 of
                          None \<Rightarrow> None
                        | Some r \<Rightarrow>
                            Some ([Started_ok (''Session started for '' @ squote
                                     @ py_format other (name (profile w)) @ squote @ ''.'')],
                                  True, r))))))"

text \<open>The \<^verbatim>\<open>except\<close> and \<^verbatim>\<open>finally\<close> clauses of \<^verbatim>\<open>run\<close>.\<close>

definition run_finally ::
  "(json \<Rightarrow> string) \<Rightarrow> session_env \<Rightarrow> 'a CamoufoxWorker_scheme \<Rightarrow> bool \<Rightarrow> string option \<Rightarrow> signal list" where
  "run_finally other env w ctx exc =
     (case exc of None \<Rightarrow> [] | Some m \<Rightarrow> [Error (''Failed to start Camoufox: '' @ m)])
     @ (if ctx then
          (case ctx_close env of
             None \<Rightarrow> []
           | Some m \<Rightarrow> [Error (''Error while stopping session: '' @ m)])
        else [])
     @ [Stopped (''Session stopped for '' @ squote
                 @ py_format other (name (profile w)) @ squote @ ''.'')]"

definition not_available_msg :: string where
  "not_available_msg =
     ''Camoufox not available. Install with: pip install -U '' @ squote @ ''camoufox[geoip]''
     @ squote @ '' and run '' @ squote @ ''camoufox fetch'' @ squote @ ''.''"

text \<open>
  \<^verbatim>\<open>CamoufoxWorker.run\<close>: the signals of one run in the order emitted, \<open>None\<close> when
  the run never returns. \<open>ok\<close> is the module's \<^verbatim>\<open>CAMOUFOX_OK\<close>.
\<close>

definition run :: "(json \<Rightarrow> string) \<Rightarrow> bool \<Rightarrow> session_env \<Rightarrow> 'a CamoufoxWorker_scheme \<Rightarrow> signal list option" where
  "run other ok env w =
     (if \<not> ok then Some [Error not_available_msg]
      else
        (case run_try other env w of
           None \<Rightarrow> None
         | Some (sigs, ctx, exc) \<Rightarrow> Some (sigs @ run_finally other env w ctx exc)))"

definition is_stopped :: "signal \<Rightarrow> bool" where
  "is_stopped s = (case s of Stopped m \<Rightarrow> True | _ \<Rightarrow> False)"

section \<open>Main window\<close>

text \<open>
  The functions of the library that the window calls: \<^verbatim>\<open>os.path.join\<close>,
  \<^verbatim>\<open>json.load\<close>, \<^verbatim>\<open>json.dump\<close> and the \<^verbatim>\<open>repr\<close> of a value that is no text.
\<close>

record pylib =
  path_join :: "string \<Rightarrow> string \<Rightarrow> string"
  json_loads :: "string \<Rightarrow> json option"
  json_dumps :: "json \<Rightarrow> string"
  repr_other :: "json \<Rightarrow> string"

text \<open>What the widgets of the editor hold.\<close>

record Form =
  nameEdit :: string
  spinW :: int
  spinH :: int
  fullscreenCheck :: bool
  proxyHostEdit :: string
  proxyPortSpin :: int
  proxyUserEdit :: string
  proxyPassEdit :: string
  geoipCheck :: bool
  storageEdit :: string

text \<open>A worker object as the window sees it: \<open>is_running\<close> is \<^verbatim>\<open>QThread.isRunning()\<close>.\<close>

record worker_thread = CamoufoxWorker +
  is_running :: bool

text \<open>
  The state of the window. \<open>workers\<close> lists every worker object created so far, the
  newest first: its head is \<^verbatim>\<open>self.worker\<close>, which the source assigns only when it
  creates a worker. \<open>boxes\<close> are the texts of the message boxes shown, \<open>statusbar\<close> the
  last status message, \<open>controls_running\<close> the last argument of \<^verbatim>\<open>_set_running\<close>.
\<close>

record MainWindow =
  profiles :: "Profile list"
  current_index :: int
  workers :: "worker_thread list"
  form :: Form
  profiles_file :: "string option"
  statusbar :: string
  boxes :: "string list"
  controls_running :: bool

text \<open>\<^verbatim>\<open>xs[i] = v\<close> and \<^verbatim>\<open>xs[i]\<close> of a Python list: a negative index counts from the end.\<close>

definition list_set :: "'a list \<Rightarrow> int \<Rightarrow> 'a \<Rightarrow> py_error + 'a list" where
  "list_set xs i v =
     (let n = int (length xs); j = (if i < 0 then i + n else i)
      in if 0 \<le> j \<and> j < n then Inr (xs[nat j := v]) else Inl IndexError)"

definition list_get :: "'a list \<Rightarrow> int \<Rightarrow> py_error + 'a" where
  "list_get xs i =
     (let n = int (length xs); j = (if i < 0 then i + n else i)
      in if 0 \<le> j \<and> j < n then Inr (xs ! nat j) else Inl IndexError)"

text \<open>\<^verbatim>\<open>del xs[i]\<close> for an index already read with \<^verbatim>\<open>xs[i]\<close>.\<close>

definition list_del :: "'a list \<Rightarrow> int \<Rightarrow> 'a list" where
  "list_del xs i = (let j = nat (if i < 0 then i + int (length xs) else i) in take j xs @ drop (Suc j) xs)"

text \<open>\<^verbatim>\<open>MainWindow.__init__\<close>, from the file and the initial contents of the widgets.\<close>

definition MainWindow_init :: "pylib \<Rightarrow> string option \<Rightarrow> Form \<Rightarrow> py_error + MainWindow" where
  "MainWindow_init L file f0 =
     (case load_profiles (json_loads L) (path_join L) file of
        Inl e \<Rightarrow> Inl e
      | Inr ps \<Rightarrow>
          Inr \<lparr>profiles = ps, current_index = - 1, workers = [], form = f0,
               profiles_file = file, statusbar = ''Ready'', boxes = [],
               controls_running = False\<rparr>)"

definition current :: "MainWindow \<Rightarrow> Profile option" where
  "current s =
     (if 0 \<le> current_index s \<and> current_index s < int (length (profiles s))
      then Some (profiles s ! nat (current_index s)) else None)"

text \<open>
  \<^verbatim>\<open>_gather_form\<close>. The profile it starts from is the selected one, updated in place, or
  a fresh \<^verbatim>\<open>Profile()\<close>; no two slots of the list share an object, so the update is
  seen only through the slot that \<^verbatim>\<open>_save_changes\<close> and \<^verbatim>\<open>_launch\<close> then assign.
\<close>

definition gather_form :: "pylib \<Rightarrow> MainWindow \<Rightarrow> Profile" where
  "gather_form L s =
     (let p0 = (case current s of Some p \<Rightarrow> p | None \<Rightarrow> Profile_default);
          f = form s;
          nm = (if strip (nameEdit f) = [] then ''Profile'' else strip (nameEdit f));
          p1 = p0\<lparr>name := JStr nm,
                  viewport_width := spinW f,
                  viewport_height := spinH f,
                  fullscreen := fullscreenCheck f,
                  proxy := (proxy p0)\<lparr>host := JStr (strip (proxyHostEdit f)),
                                       port := proxyPortSpin f,
                                       username := JStr (strip (proxyUserEdit f)),
                                       password := JStr (strip (proxyPassEdit f))\<rparr>,
                  use_geoip := geoipCheck f\<rparr>;
          st = strip (storageEdit f)
      in p1\<lparr>persistent_dir := JStr (if st = [] then path_join L root_dir nm else st)\<rparr>)"

text \<open>
  The slots. The calls that only redraw the list widget are left out; the selection
  change that the toolkit may deliver after them is a step of its own, below.
\<close>

definition new_profile :: "pylib \<Rightarrow> MainWindow \<Rightarrow> MainWindow" where
  "new_profile L s =
     (let nm = ''Profile '' @ str_int (int (length (profiles s)) + 1);
          p = Profile_default\<lparr>name := JStr nm, persistent_dir := JStr (path_join L root_dir nm)\<rparr>;
          ps = profiles s @ [p]
      in s\<lparr>profiles := ps,
            profiles_file := save_profiles (json_dumps L) ps,
            statusbar := ''New profile created''\<rparr>)"

definition save_changes :: "pylib \<Rightarrow> MainWindow \<Rightarrow> py_error + MainWindow" where
  "save_changes L s =
     (if current_index s = - 1 then Inr (new_profile L s)
      else
        (case list_set (profiles s) (current_index s) (gather_form L s) of
           Inl e \<Rightarrow> Inl e
         | Inr ps \<Rightarrow>
             Inr (s\<lparr>profiles := ps,
                    profiles_file := save_profiles (json_dumps L) ps,
                    statusbar := ''Profile saved''\<rparr>)))"

text \<open>
  \<^verbatim>\<open>_delete_profile\<close>: \<open>row\<close> is the row the list widget reports, \<open>yes\<close> the answer to
  the confirmation, \<open>cleared\<close> what the widgets hold after \<^verbatim>\<open>_populate_form(None)\<close>.
\<close>

definition delete_profile :: "pylib \<Rightarrow> int \<Rightarrow> bool \<Rightarrow> Form \<Rightarrow> MainWindow \<Rightarrow> py_error + MainWindow" where
  "delete_profile L row yes cleared s =
     (if row < 0 then Inr s
      else
        (case list_get (profiles s) row of
           Inl e \<Rightarrow> Inl e
         | Inr p \<Rightarrow>
             (let ask = ''Delete profile '' @ squote @ py_format (repr_other L) (name p) @ squote @ ''?''
              in if \<not> yes then Inr (s\<lparr>boxes := boxes s @ [ask]\<rparr>)
                 else
                   (let ps = list_del (profiles s) row
                    in Inr (s\<lparr>profiles := ps,
                              profiles_file := save_profiles (json_dumps L) ps,
                              form := cleared,
                              current_index := - 1,
                              boxes := boxes s @ [ask],
                              statusbar := ''Deleted '' @ squote
                                 @ py_format (repr_other L) (name p) @ squote\<rparr>)))))"

text \<open>Lines 371 to 376: the size handed to the worker; \<open>screen\<close> is the available geometry.\<close>

definition decide_launch_size :: "Profile \<Rightarrow> int \<times> int \<Rightarrow> int \<times> int" where
  "decide_launch_size prof screen =
     (if fullscreen prof then screen else (viewport_width prof, viewport_height prof))"

definition not_available_box :: string where
  "not_available_box =
     ''Install with:'' @ [CHR 0x0A] @ ''  pip install -U '' @ squote @ ''camoufox[geoip]'' @ squote
     @ [CHR 0x0A] @ ''Then run:'' @ [CHR 0x0A] @ ''  camoufox fetch''"

text \<open>
  The test \<^verbatim>\<open>self.worker and self.worker.isRunning()\<close> of \<^verbatim>\<open>_launch\<close> and \<^verbatim>\<open>_stop\<close>,
  then \<^verbatim>\<open>_launch\<close> itself; \<open>ok\<close> is \<^verbatim>\<open>CAMOUFOX_OK\<close>.
\<close>

definition worker_running :: "MainWindow \<Rightarrow> bool" where
  "worker_running s = (case workers s of [] \<Rightarrow> False | w # ws \<Rightarrow> is_running w)"

definition launch :: "pylib \<Rightarrow> bool \<Rightarrow> int \<times> int \<Rightarrow> MainWindow \<Rightarrow> py_error + MainWindow" where
  "launch L ok screen s =
     (if worker_running s
      then Inr (s\<lparr>statusbar := ''A session is already running''\<rparr>)
      else if current_index s = - 1
      then Inr (s\<lparr>boxes := boxes s @ [''Create or select a profile first.'']\<rparr>)
      else
        (let prof = gather_form L s
         in case list_set (profiles s) (current_index s) prof of
              Inl e \<Rightarrow> Inl e
            | Inr ps \<Rightarrow>
                (let s1 = s\<lparr>profiles := ps, profiles_file := save_profiles (json_dumps L) ps\<rparr>
                 in if \<not> ok then Inr (s1\<lparr>boxes := boxes s1 @ [not_available_box]\<rparr>)
                    else
                      Inr (s1\<lparr>workers :=
                                 \<lparr>profile = prof,
                                  launch_size = Some (decide_launch_size prof screen),
                                  stop_flag = False,
                                  is_running = True\<rparr> # workers s1,
                               controls_running := True\<rparr>))))"

text \<open>
  \<^verbatim>\<open>_stop\<close>; \<open>fin\<close> tells whether the thread ended within the wait of five seconds.
  The status text ends with the character U+2026, written here as its UTF-8 bytes.
\<close>

definition stop :: "bool \<Rightarrow> MainWindow \<Rightarrow> MainWindow" where
  "stop fin s =
     (case workers s of
        [] \<Rightarrow> s\<lparr>statusbar := ''No session to stop''\<rparr>
      | w # ws \<Rightarrow>
          if is_running w
          then s\<lparr>workers := w\<lparr>stop_flag := True, is_running := \<not> fin\<rparr> # ws,
                 statusbar := ''Stopping session'' @ [CHR 0xE2, CHR 0x80, CHR 0xA6]\<rparr>
          else s\<lparr>statusbar := ''No session to stop''\<rparr>)"

definition on_stopped :: "string \<Rightarrow> MainWindow \<Rightarrow> MainWindow" where
  "on_stopped msg s = s\<lparr>statusbar := msg, controls_running := False\<rparr>"

text \<open>The end of a thread's \<^verbatim>\<open>run\<close>: the \<open>i\<close>-th worker object is no longer running.\<close>

definition thread_finished :: "nat \<Rightarrow> MainWindow \<Rightarrow> MainWindow" where
  "thread_finished i s =
     (if i < length (workers s)
      then s\<lparr>workers := (workers s)[i := (workers s ! i)\<lparr>is_running := False\<rparr>]\<rparr>
      else s)"

text \<open>
  One step of the application: a slot runs to its end without raising, a thread ends,
  or the widgets change under the user's hands or by a selection signal
  (\<^verbatim>\<open>_on_select_profile\<close>, \<^verbatim>\<open>_browse_storage\<close>), which touches the form and the
  selected index only.
\<close>

inductive step :: "pylib \<Rightarrow> MainWindow \<Rightarrow> MainWindow \<Rightarrow> bool" for L :: pylib where
  step_launch: "launch L ok screen s = Inr s' \<Longrightarrow> step L s s'"
| step_stop: "step L s (stop fin s)"
| step_on_stopped: "step L s (on_stopped msg s)"
| step_save: "save_changes L s = Inr s' \<Longrightarrow> step L s s'"
| step_new: "step L s (new_profile L s)"
| step_delete: "delete_profile L row yes cleared s = Inr s' \<Longrightarrow> step L s s'"
| step_widgets: "step L s (s\<lparr>form := f, current_index := i\<rparr>)"
| step_finished: "step L s (thread_finished i s)"

inductive reachable :: "pylib \<Rightarrow> MainWindow \<Rightarrow> bool" for L :: pylib where
  reach_init: "MainWindow_init L file f0 = Inr s \<Longrightarrow> reachable L s"
| reach_step: "reachable L s \<Longrightarrow> step L s s' \<Longrightarrow> reachable L s'"

definition active_workers :: "MainWindow \<Rightarrow> nat" where
  "active_workers s = length (filter is_running (workers s))"

definition stopped_count :: "signal list \<Rightarrow> nat" where
  "stopped_count sigs = length (filter is_stopped sigs)"

text \<open>
  A sample session for the concrete checks: every call of the library returns, no page
  is open yet, and the stop flag is seen on the third turn of the idle loop.
\<close>

definition sample_sleeps :: "nat \<Rightarrow> idle_event" where
  "sample_sleeps k = (if k < 2 then Slept else Stop_seen)"

definition sample_env :: session_env where
  "sample_env =
     \<lparr>os_makedirs = (\<lambda>d. None),
      os_abspath = (\<lambda>d. case d of JStr s \<Rightarrow> Inr s | _ \<Rightarrow> Inl ''expected str''),
      camoufox_enter = (\<lambda>opts. None),
      pages_open = Inr 0,
      new_page = None,
      sleeps = sample_sleeps,
      ctx_close = None\<rparr>"

definition sample_repr :: "json \<Rightarrow> string" where
  "sample_repr v = ''?''"

definition sample_worker :: CamoufoxWorker where
  "sample_worker =
     \<lparr>profile = Profile_default\<lparr>persistent_dir := JStr ''/data/p1''\<rparr>,
      launch_size = Some (1280, 800), stop_flag = False\<rparr>"

text \<open>
  Whether an outcome leaves the list of profiles and the file as they were; an outcome
  that raises has written neither.
\<close>

definition store_unchanged :: "MainWindow \<Rightarrow> py_error + MainWindow \<Rightarrow> bool" where
  "store_unchanged s r =
     (case r of
        Inl e \<Rightarrow> True
      | Inr s' \<Rightarrow> profiles s' = profiles s \<and> profiles_file s' = profiles_file s)"

definition store_of :: "py_error + MainWindow \<Rightarrow> py_error + Profile list \<times> string option" where
  "store_of r = (case r of Inl e \<Rightarrow> Inl e | Inr s \<Rightarrow> Inr (profiles s, profiles_file s))"

text \<open>
  Stand-ins for the library in the concrete checks: the POSIX join, a reader that knows
  the empty array only, and a writer that puts down the names of the records.
\<close>

definition sample_loads :: "string \<Rightarrow> json option" where
  "sample_loads txt = (if strip txt = ''[]'' then Some (JList []) else None)"

definition sample_dumps :: "json \<Rightarrow> string" where
  "sample_dumps v =
     (case v of
        JList xs \<Rightarrow>
          ''['' @ concat (map (\<lambda>x. case x of
                                      JObj kvs \<Rightarrow> py_format sample_repr (dict_get kvs ''name'' JNull) @ '';''
                                    | _ \<Rightarrow> ''?;'') xs) @ '']''
      | _ \<Rightarrow> ''?'')"

definition sample_lib :: pylib where
  "sample_lib =
     \<lparr>path_join = posixpath_join, json_loads = sample_loads,
      json_dumps = sample_dumps, repr_other = sample_repr\<rparr>"

definition sample_form :: Form where
  "sample_form =
     \<lparr>nameEdit = '' Work '', spinW = 1024, spinH = 768, fullscreenCheck = False,
      proxyHostEdit = [], proxyPortSpin = 0, proxyUserEdit = [], proxyPassEdit = [],
      geoipCheck = False, storageEdit = ''/data/work''\<rparr>"

text \<open>
  A window started without a file, after \<^verbatim>\<open>New Profile\<close>, with the new row selected
  and the form edited; and the same window after \<^verbatim>\<open>Launch\<close>.
\<close>

definition sample_start :: MainWindow where
  "sample_start =
     \<lparr>profiles = [], current_index = - 1, workers = [], form = sample_form,
      profiles_file = None, statusbar = ''Ready'', boxes = [], controls_running = False\<rparr>"

definition sample_window :: MainWindow where
  "sample_window = (new_profile sample_lib sample_start)\<lparr>form := sample_form, current_index := 0\<rparr>"

definition sample_profile :: Profile where
  "sample_profile =
     \<lparr>name = JStr ''Work'', viewport_width = 1024, viewport_height = 768,
      fullscreen = False, persistent_dir = JStr ''/data/work'', use_geoip = False,
      proxy = ProxyConfig_default\<rparr>"

definition sample_running :: MainWindow where
  "sample_running =
     sample_window
       \<lparr>profiles := [sample_profile],
        profiles_file := Some ''[Work;]'',
        workers := [\<lparr>profile = sample_profile, launch_size = Some (1024, 768),
                     stop_flag = False, is_running = True\<rparr>],
        controls_running := True\<rparr>"

text \<open>Of the worker objects created so far, none but the newest is running.\<close>

definition only_head_runs :: "MainWindow \<Rightarrow> bool" where
  "only_head_runs s = (\<forall>w \<in> set (tl (workers s)). \<not> is_running w)"

section \<open>Properties\<close>

subsection \<open>Serialization\<close>

lemma from_dict_to_dict_truthy:
  "truthy (persistent_dir p) \<Longrightarrow> from_dict join (to_dict p) = Inr p"
  by (simp add: from_dict_def to_dict_def proxy_asdict_def dict_get_def Let_def)

lemma from_dict_to_dict_empty:
  "name p = JStr n \<Longrightarrow> persistent_dir p = JStr [] \<Longrightarrow>
   from_dict join (to_dict p) = Inr (p\<lparr>persistent_dir := JStr (join root_dir n)\<rparr>)"
  by (simp add: from_dict_def to_dict_def proxy_asdict_def dict_get_def Let_def os_path_join_def)

lemma posixpath_join_root_nonempty: "posixpath_join root_dir n \<noteq> []"
  by (simp add: posixpath_join_def root_dir_def)

lemma from_dict_persistent_dir:
  assumes "from_dict join x = Inr p"
  shows "truthy (persistent_dir p) \<or>
         (\<exists>n. name p = JStr n \<and> persistent_dir p = JStr (join root_dir n))"
proof -
  obtain d where x: "x = JObj d"
    using assms by (cases x) (simp_all add: from_dict_def)
  let ?pd0 = "dict_get d ''persistent_dir'' (JStr [])"
  let ?nm = "dict_get d ''name'' (JStr ''Profile'')"
  show ?thesis
  proof (cases "truthy ?pd0")
    case True
    with assms x have "persistent_dir p = ?pd0"
      by (auto simp: from_dict_def Let_def split: sum.splits)
    with True show ?thesis by simp
  next
    case False
    with assms x obtain n where "?nm = JStr n"
      by (cases ?nm) (auto simp: from_dict_def Let_def os_path_join_def split: sum.splits)
    with False assms x have "name p = JStr n \<and> persistent_dir p = JStr (join root_dir n)"
      by (auto simp: from_dict_def Let_def os_path_join_def split: sum.splits)
    then show ?thesis by blast
  qed
qed

text \<open>
  Claim C1. Serializing a profile whose storage path is set and reading it back gives the
  same profile. A profile whose storage path is the empty string and whose name is text
  reads back with the path joined from the root \<^verbatim>\<open>C:\\<close> and its name; with the POSIX
  join that path is never empty.
\<close>

theorem from_dict_to_dict_roundtrip:
  "(truthy (persistent_dir p) \<longrightarrow> from_dict join (to_dict p) = Inr p) \<and>
   (name p = JStr n \<and> persistent_dir p = JStr [] \<longrightarrow>
      from_dict join (to_dict p) = Inr (p\<lparr>persistent_dir := JStr (join root_dir n)\<rparr>)) \<and>
   posixpath_join root_dir n \<noteq> []"
  using from_dict_to_dict_truthy from_dict_to_dict_empty posixpath_join_root_nonempty
  by blast

theorem from_dict_to_dict_roundtrip_witness:
  "truthy (persistent_dir (Profile_default\<lparr>persistent_dir := JStr ''/data/p1''\<rparr>)) \<and>
   from_dict posixpath_join (to_dict (Profile_default\<lparr>persistent_dir := JStr ''/data/p1''\<rparr>))
     = Inr (Profile_default\<lparr>persistent_dir := JStr ''/data/p1''\<rparr>) \<and>
   name Profile_default = JStr ''Profile'' \<and>
   persistent_dir Profile_default = JStr [] \<and>
   from_dict posixpath_join (to_dict Profile_default)
     = Inr (Profile_default\<lparr>persistent_dir := JStr (root_dir @ ''/Profile'')\<rparr>)"
  using from_dict_to_dict_roundtrip
          [of "Profile_default\<lparr>persistent_dir := JStr ''/data/p1''\<rparr>" posixpath_join "''Profile''"]
        from_dict_to_dict_roundtrip [of Profile_default posixpath_join "''Profile''"]
  by (simp add: Profile_default_def posixpath_join_def root_dir_def)

text \<open>
  Claim C8. A record that deserializes gives the same profile again after that profile
  has been serialized and read back.
\<close>

theorem from_dict_idempotent:
  assumes "from_dict join d = Inr p"
  shows "from_dict join (to_dict p) = from_dict join d"
proof -
  from from_dict_persistent_dir [OF assms]
  have "from_dict join (to_dict p) = Inr p"
  proof
    assume "truthy (persistent_dir p)"
    then show ?thesis by (rule from_dict_to_dict_truthy)
  next
    assume "\<exists>n. name p = JStr n \<and> persistent_dir p = JStr (join root_dir n)"
    then obtain n where n: "name p = JStr n" "persistent_dir p = JStr (join root_dir n)"
      by blast
    show ?thesis
    proof (cases "join root_dir n = []")
      case True
      with n have "from_dict join (to_dict p) = Inr (p\<lparr>persistent_dir := JStr (join root_dir n)\<rparr>)"
        by (intro from_dict_to_dict_empty) simp_all
      with n show ?thesis by simp
    next
      case False
      with n show ?thesis by (intro from_dict_to_dict_truthy) simp
    qed
  qed
  with assms show ?thesis by simp
qed

theorem from_dict_idempotent_witness:
  "from_dict posixpath_join (JObj [(''name'', JStr ''A''), (''viewport_width'', JStr ''640'')])
     = Inr (Profile_default\<lparr>name := JStr ''A'', viewport_width := 640,
                             persistent_dir := JStr (root_dir @ ''/A'')\<rparr>) \<and>
   from_dict posixpath_join
      (to_dict (Profile_default\<lparr>name := JStr ''A'', viewport_width := 640,
                                 persistent_dir := JStr (root_dir @ ''/A'')\<rparr>))
     = from_dict posixpath_join (JObj [(''name'', JStr ''A''), (''viewport_width'', JStr ''640'')])"
proof -
  have h: "from_dict posixpath_join (JObj [(''name'', JStr ''A''), (''viewport_width'', JStr ''640'')])
     = Inr (Profile_default\<lparr>name := JStr ''A'', viewport_width := 640,
                             persistent_dir := JStr (root_dir @ ''/A'')\<rparr>)"
    by (simp add: from_dict_def Let_def dict_get_def os_path_join_def posixpath_join_def root_dir_def
          Profile_default_def ProxyConfig_default_def py_int_str_def int_strip_def is_int_space_def int_max_str_digits_def
          is_digit_def digit_val_def)
  from from_dict_idempotent [OF h] h show ?thesis by simp
qed

subsection \<open>Proxy\<close>

text \<open>
  Claim C2. For a proxy configuration whose host, user name and password are text,
  \<^verbatim>\<open>to_proxy_dict\<close> is \<open>None\<close> exactly when the host is empty or the port is zero;
  otherwise it is the dict with \<^verbatim>\<open>server\<close> equal to \<^verbatim>\<open>http://host:port\<close>, followed by
  \<^verbatim>\<open>username\<close> when the user name is not empty and by \<^verbatim>\<open>password\<close> when the password
  is not empty.
\<close>

theorem to_proxy_dict_activity:
  assumes "host c = JStr h" and "username c = JStr u" and "password c = JStr pw"
  shows "(to_proxy_dict other c = None) = (h = [] \<or> port c = 0) \<and>
         (h \<noteq> [] \<and> port c \<noteq> 0 \<longrightarrow>
            to_proxy_dict other c =
              Some ([(''server'', JStr (''http://'' @ h @ '':'' @ str_int (port c)))]
                    @ (if u = [] then [] else [(''username'', JStr u)])
                    @ (if pw = [] then [] else [(''password'', JStr pw)])))"
  using assms by (simp add: to_proxy_dict_def py_format_def Let_def)

theorem to_proxy_dict_activity_witness:
  "host \<lparr>host = JStr ''gw'', port = 8080, username = JStr ''u'', password = JStr []\<rparr> = JStr ''gw'' \<and>
   to_proxy_dict (\<lambda>v. []) \<lparr>host = JStr ''gw'', port = 8080, username = JStr ''u'', password = JStr []\<rparr>
     = Some [(''server'', JStr ''http://gw:8080''), (''username'', JStr ''u'')] \<and>
   to_proxy_dict (\<lambda>v. []) \<lparr>host = JStr ''gw'', port = 0, username = JStr ''u'', password = JStr []\<rparr>
     = None"
  using to_proxy_dict_activity [of "\<lparr>host = JStr ''gw'', port = 8080, username = JStr ''u'', password = JStr []\<rparr>"
          "''gw''" "''u''" "[]" "\<lambda>v. []"]
        to_proxy_dict_activity [of "\<lparr>host = JStr ''gw'', port = 0, username = JStr ''u'', password = JStr []\<rparr>"
          "''gw''" "''u''" "[]" "\<lambda>v. []"]
  by (simp add: str_int_def str_nat.simps digit_char_def)

lemma py_int_str_error: "py_int_str s = Inl e \<Longrightarrow> e = ValueError"
  by (auto simp: py_int_str_def Let_def split: list.splits if_splits option.splits)

lemma from_dict_unfold:
  assumes "(if \<not> truthy (dict_get d ''persistent_dir'' (JStr []))
            then os_path_join join root_dir (dict_get d ''name'' (JStr ''Profile''))
            else Inr (dict_get d ''persistent_dir'' (JStr []))) = Inr pd"
      and "py_int (dict_get d ''viewport_width'' (JInt 1280)) = Inr w"
      and "py_int (dict_get d ''viewport_height'' (JInt 800)) = Inr h"
  shows "from_dict join (JObj d) =
     (case py_int (let v = dict_get (case dict_get d ''proxy'' (JObj []) of JObj rp \<Rightarrow> rp | _ \<Rightarrow> [])
                              ''port'' (JInt 0)
                   in if truthy v then v else JInt 0) of
        Inl e \<Rightarrow> Inl e
      | Inr pt \<Rightarrow>
          Inr \<lparr>name = dict_get d ''name'' (JStr ''Profile''),
               viewport_width = w, viewport_height = h,
               fullscreen = truthy (dict_get d ''fullscreen'' (JBool False)),
               persistent_dir = pd,
               use_geoip = truthy (dict_get d ''use_geoip'' (JBool False)),
               proxy = \<lparr>host = dict_get (case dict_get d ''proxy'' (JObj []) of JObj rp \<Rightarrow> rp | _ \<Rightarrow> [])
                                 ''host'' (JStr []),
                        port = pt,
                        username = dict_get (case dict_get d ''proxy'' (JObj []) of JObj rp \<Rightarrow> rp | _ \<Rightarrow> [])
                                 ''username'' (JStr []),
                        password = dict_get (case dict_get d ''proxy'' (JObj []) of JObj rp \<Rightarrow> rp | _ \<Rightarrow> [])
                                 ''password'' (JStr [])\<rparr>\<rparr>)"
  using assms by (simp add: from_dict_def Let_def)

lemma not_dict_empty:
  "\<forall>rp. v \<noteq> JObj rp \<Longrightarrow> (case v of JObj rp \<Rightarrow> rp | _ \<Rightarrow> []) = []"
  by (cases v) simp_all

text \<open>
  Claim C6, as the code has it. Let the rest of the record deserialize: the storage
  path is given or can be joined from the name, and the two viewport fields convert.
  Then a \<^verbatim>\<open>proxy\<close> value that is no dict does not raise and gives the default proxy;
  a proxy dict whose port is missing or falsy does not raise and gets the port 0, its
  other fields as given; and a truthy port is converted by \<^verbatim>\<open>int\<close>, whose error is the
  error of \<^verbatim>\<open>from_dict\<close>: for a string that is no decimal literal, \<^verbatim>\<open>ValueError\<close>.
\<close>

theorem from_dict_proxy_defaulting:
  assumes "(if \<not> truthy (dict_get d ''persistent_dir'' (JStr []))
            then os_path_join join root_dir (dict_get d ''name'' (JStr ''Profile''))
            else Inr (dict_get d ''persistent_dir'' (JStr []))) = Inr pd"
      and "py_int (dict_get d ''viewport_width'' (JInt 1280)) = Inr w"
      and "py_int (dict_get d ''viewport_height'' (JInt 800)) = Inr h"
  shows
    "((\<forall>rp. dict_get d ''proxy'' (JObj []) \<noteq> JObj rp) \<longrightarrow>
        from_dict join (JObj d) =
          Inr \<lparr>name = dict_get d ''name'' (JStr ''Profile''),
               viewport_width = w, viewport_height = h,
               fullscreen = truthy (dict_get d ''fullscreen'' (JBool False)),
               persistent_dir = pd,
               use_geoip = truthy (dict_get d ''use_geoip'' (JBool False)),
               proxy = ProxyConfig_default\<rparr>) \<and>
     (dict_get d ''proxy'' (JObj []) = JObj rp \<and> \<not> truthy (dict_get rp ''port'' (JInt 0)) \<longrightarrow>
        from_dict join (JObj d) =
          Inr \<lparr>name = dict_get d ''name'' (JStr ''Profile''),
               viewport_width = w, viewport_height = h,
               fullscreen = truthy (dict_get d ''fullscreen'' (JBool False)),
               persistent_dir = pd,
               use_geoip = truthy (dict_get d ''use_geoip'' (JBool False)),
               proxy = \<lparr>host = dict_get rp ''host'' (JStr []), port = 0,
                        username = dict_get rp ''username'' (JStr []),
                        password = dict_get rp ''password'' (JStr [])\<rparr>\<rparr>) \<and>
     (dict_get d ''proxy'' (JObj []) = JObj rp \<and> truthy (dict_get rp ''port'' (JInt 0)) \<longrightarrow>
        from_dict join (JObj d) =
          (case py_int (dict_get rp ''port'' (JInt 0)) of
             Inl e \<Rightarrow> Inl e
           | Inr n \<Rightarrow>
               Inr \<lparr>name = dict_get d ''name'' (JStr ''Profile''),
                    viewport_width = w, viewport_height = h,
                    fullscreen = truthy (dict_get d ''fullscreen'' (JBool False)),
                    persistent_dir = pd,
                    use_geoip = truthy (dict_get d ''use_geoip'' (JBool False)),
                    proxy = \<lparr>host = dict_get rp ''host'' (JStr []), port = n,
                             username = dict_get rp ''username'' (JStr []),
                             password = dict_get rp ''password'' (JStr [])\<rparr>\<rparr>)) \<and>
     (py_int (JStr s) = Inl e \<longrightarrow> e = ValueError)"
proof (intro conjI impI)
  assume "\<forall>rp. dict_get d ''proxy'' (JObj []) \<noteq> JObj rp"
  then have "(case dict_get d ''proxy'' (JObj []) of JObj rp \<Rightarrow> rp | _ \<Rightarrow> []) = []"
    by (rule not_dict_empty)
  then show "from_dict join (JObj d) =
          Inr \<lparr>name = dict_get d ''name'' (JStr ''Profile''),
               viewport_width = w, viewport_height = h,
               fullscreen = truthy (dict_get d ''fullscreen'' (JBool False)),
               persistent_dir = pd,
               use_geoip = truthy (dict_get d ''use_geoip'' (JBool False)),
               proxy = ProxyConfig_default\<rparr>"
    by (simp add: from_dict_unfold [OF assms] dict_get_def ProxyConfig_default_def)
next
  assume "dict_get d ''proxy'' (JObj []) = JObj rp \<and> \<not> truthy (dict_get rp ''port'' (JInt 0))"
  then show "from_dict join (JObj d) =
          Inr \<lparr>name = dict_get d ''name'' (JStr ''Profile''),
               viewport_width = w, viewport_height = h,
               fullscreen = truthy (dict_get d ''fullscreen'' (JBool False)),
               persistent_dir = pd,
               use_geoip = truthy (dict_get d ''use_geoip'' (JBool False)),
               proxy = \<lparr>host = dict_get rp ''host'' (JStr []), port = 0,
                        username = dict_get rp ''username'' (JStr []),
                        password = dict_get rp ''password'' (JStr [])\<rparr>\<rparr>"
    by (simp add: from_dict_unfold [OF assms])
next
  assume "dict_get d ''proxy'' (JObj []) = JObj rp \<and> truthy (dict_get rp ''port'' (JInt 0))"
  then show "from_dict join (JObj d) =
          (case py_int (dict_get rp ''port'' (JInt 0)) of
             Inl e \<Rightarrow> Inl e
           | Inr n \<Rightarrow>
               Inr \<lparr>name = dict_get d ''name'' (JStr ''Profile''),
                    viewport_width = w, viewport_height = h,
                    fullscreen = truthy (dict_get d ''fullscreen'' (JBool False)),
                    persistent_dir = pd,
                    use_geoip = truthy (dict_get d ''use_geoip'' (JBool False)),
                    proxy = \<lparr>host = dict_get rp ''host'' (JStr []), port = n,
                             username = dict_get rp ''username'' (JStr []),
                             password = dict_get rp ''password'' (JStr [])\<rparr>\<rparr>)"
    by (simp add: from_dict_unfold [OF assms] split: sum.splits)
next
  assume "py_int (JStr s) = Inl e"
  then show "e = ValueError" using py_int_str_error by simp
qed

lemma from_dict_sample_rest:
  assumes "map_of d ''persistent_dir'' = None" and "map_of d ''name'' = None"
    and "map_of d ''viewport_width'' = None" and "map_of d ''viewport_height'' = None"
  shows "(if \<not> truthy (dict_get d ''persistent_dir'' (JStr []))
          then os_path_join posixpath_join root_dir (dict_get d ''name'' (JStr ''Profile''))
          else Inr (dict_get d ''persistent_dir'' (JStr []))) = Inr (JStr (root_dir @ ''/Profile''))"
    and "py_int (dict_get d ''viewport_width'' (JInt 1280)) = Inr 1280"
    and "py_int (dict_get d ''viewport_height'' (JInt 800)) = Inr 800"
  using assms
  by (simp_all add: dict_get_def os_path_join_def posixpath_join_def root_dir_def)

theorem from_dict_proxy_defaulting_witness:
  "from_dict posixpath_join (JObj [(''proxy'', JStr ''none'')])
     = Inr (Profile_default\<lparr>persistent_dir := JStr (root_dir @ ''/Profile'')\<rparr>) \<and>
   from_dict posixpath_join (JObj [(''proxy'', JObj [(''port'', JNull)])])
     = Inr (Profile_default\<lparr>persistent_dir := JStr (root_dir @ ''/Profile'')\<rparr>) \<and>
   from_dict posixpath_join (JObj [(''proxy'', JObj [(''port'', JStr ''8080'')])])
     = Inr (Profile_default\<lparr>persistent_dir := JStr (root_dir @ ''/Profile''),
                             proxy := ProxyConfig_default\<lparr>port := 8080\<rparr>\<rparr>) \<and>
   from_dict posixpath_join (JObj [(''proxy'', JObj [(''port'', JStr ''8o8o'')])])
     = Inl ValueError"
proof -
  let ?d1 = "[(''proxy'', JStr ''none'')]"
  let ?d2 = "[(''proxy'', JObj [(''port'', JNull)])]"
  let ?d3 = "[(''proxy'', JObj [(''port'', JStr ''8080'')])]"
  let ?d4 = "[(''proxy'', JObj [(''port'', JStr ''8o8o'')])]"
  have n1: "\<forall>rp. dict_get ?d1 ''proxy'' (JObj []) \<noteq> JObj rp"
    by (simp add: dict_get_def)
  have 1: "from_dict posixpath_join (JObj ?d1)
     = Inr (Profile_default\<lparr>persistent_dir := JStr (root_dir @ ''/Profile'')\<rparr>)"
    using from_dict_proxy_defaulting [of ?d1 posixpath_join "JStr (root_dir @ ''/Profile'')" 1280 800 "[]" "[]" ValueError,
              OF from_dict_sample_rest] n1
    by (simp add: dict_get_def Profile_default_def)
  have g2: "dict_get ?d2 ''proxy'' (JObj []) = JObj [(''port'', JNull)] \<and>
            \<not> truthy (dict_get [(''port'', JNull)] ''port'' (JInt 0))"
    by (simp add: dict_get_def)
  have 2: "from_dict posixpath_join (JObj ?d2)
     = Inr (Profile_default\<lparr>persistent_dir := JStr (root_dir @ ''/Profile'')\<rparr>)"
    using from_dict_proxy_defaulting [of ?d2 posixpath_join "JStr (root_dir @ ''/Profile'')" 1280 800
                 "[(''port'', JNull)]" "[]" ValueError, OF from_dict_sample_rest] g2
    by (simp add: dict_get_def Profile_default_def ProxyConfig_default_def)
  have g3: "dict_get ?d3 ''proxy'' (JObj []) = JObj [(''port'', JStr ''8080'')] \<and>
            truthy (dict_get [(''port'', JStr ''8080'')] ''port'' (JInt 0))"
    by (simp add: dict_get_def)
  have p3: "py_int (dict_get [(''port'', JStr ''8080'')] ''port'' (JInt 0)) = Inr 8080"
    by (simp add: dict_get_def py_int_str_def int_strip_def is_int_space_def
          int_max_str_digits_def is_digit_def digit_val_def)
  have 3: "from_dict posixpath_join (JObj ?d3)
     = Inr (Profile_default\<lparr>persistent_dir := JStr (root_dir @ ''/Profile''),
                             proxy := ProxyConfig_default\<lparr>port := 8080\<rparr>\<rparr>)"
    using from_dict_proxy_defaulting [of ?d3 posixpath_join "JStr (root_dir @ ''/Profile'')" 1280 800
                 "[(''port'', JStr ''8080'')]" "[]" ValueError, OF from_dict_sample_rest] g3
    by (simp add: p3) (simp add: dict_get_def Profile_default_def ProxyConfig_default_def)
  have g4: "dict_get ?d4 ''proxy'' (JObj []) = JObj [(''port'', JStr ''8o8o'')] \<and>
            truthy (dict_get [(''port'', JStr ''8o8o'')] ''port'' (JInt 0))"
    by (simp add: dict_get_def)
  have p4: "py_int (dict_get [(''port'', JStr ''8o8o'')] ''port'' (JInt 0)) = Inl ValueError"
    by (simp add: dict_get_def py_int_str_def int_strip_def is_int_space_def
          int_max_str_digits_def is_digit_def digit_val_def)
  have 4: "from_dict posixpath_join (JObj ?d4) = Inl ValueError"
    using from_dict_proxy_defaulting [of ?d4 posixpath_join "JStr (root_dir @ ''/Profile'')" 1280 800
                 "[(''port'', JStr ''8o8o'')]" "[]" ValueError, OF from_dict_sample_rest] g4
    by (simp add: p4)
  from 1 2 3 4 show ?thesis by blast
qed

text \<open>
  Claim C6 as stated fails: a proxy record whose port is the text \<^verbatim>\<open>abc\<close> raises
  \<^verbatim>\<open>ValueError\<close>; the port is not coerced to 0.
\<close>

theorem from_dict_bad_port_raises:
  "from_dict posixpath_join (JObj [(''proxy'', JObj [(''port'', JStr ''abc'')])]) = Inl ValueError"
  by (simp add: from_dict_def Let_def dict_get_def os_path_join_def py_int_str_def int_strip_def
        is_int_space_def int_max_str_digits_def is_digit_def)

subsection \<open>Worker\<close>

lemma idle_loop_exits:
  "ev (i + k) \<noteq> Slept \<Longrightarrow> idle_loop ev i \<noteq> None"
proof (induction k arbitrary: i)
  case 0
  then show ?case
    by (subst idle_loop.simps) (simp split: idle_event.splits)
next
  case (Suc k)
  from Suc.prems have "ev (Suc i + k) \<noteq> Slept" by simp
  then have "idle_loop ev (Suc i) \<noteq> None" by (rule Suc.IH)
  then show ?case
    by (subst idle_loop.simps) (simp split: idle_event.splits)
qed

lemma idle_loop_stop_flag: "idle_loop (\<lambda>k. Stop_seen) 0 = Some None"
  using idle_loop.simps [of "\<lambda>k. Stop_seen" 0] by simp

lemma stopped_count_finally:
  "stopped_count (run_finally other env w ctx exc) = 1"
  by (cases exc; cases "ctx_close env"; cases ctx)
     (simp_all add: stopped_count_def run_finally_def is_stopped_def)

lemma stopped_count_append: "stopped_count (xs @ ys) = stopped_count xs + stopped_count ys"
  by (simp add: stopped_count_def)

lemma run_try_no_stopped:
  "run_try other env w = Some (sigs, ctx, exc) \<Longrightarrow> stopped_count sigs = 0"
  by (auto simp: run_try_def stopped_count_def is_stopped_def
           split: sum.splits option.splits if_splits)

lemma last_run_finally:
  "last (run_finally other env w ctx exc) =
     Stopped (''Session stopped for '' @ squote @ py_format other (name (profile w)) @ squote @ ''.'')"
  by (simp add: run_finally_def)

lemma run_finally_nonempty: "run_finally other env w ctx exc \<noteq> []"
  by (simp add: run_finally_def)

lemma run_try_returns:
  assumes "run_try other env w = None"
  shows "\<not> stop_flag w \<and> (\<forall>k. sleeps env k = Slept)"
proof -
  have loop: "idle_loop (if stop_flag w then (\<lambda>k. Stop_seen) else sleeps env) 0 = None"
    using assms by (auto simp: run_try_def split: sum.splits option.splits if_splits)
  have "\<not> stop_flag w"
    using loop idle_loop_stop_flag by auto
  moreover have "sleeps env k = Slept" for k
    using loop idle_loop_exits [of "sleeps env" 0 k] \<open>\<not> stop_flag w\<close> by auto
  ultimately show ?thesis by blast
qed

text \<open>
  Claim C3, as the code has it. With the library available, a run that returns has
  emitted exactly one \<^verbatim>\<open>stopped\<close> signal, as its last signal, whatever path it took;
  a run fails to return only when the stop flag is never set and no sleep of the idle
  loop raises. With the library unavailable the run emits the one \<^verbatim>\<open>error\<close> signal
  and nothing else.
\<close>

theorem run_stopped_once:
  "(run other True env w = Some sigs \<longrightarrow>
      stopped_count sigs = 1 \<and>
      last sigs = Stopped (''Session stopped for '' @ squote
                    @ py_format other (name (profile w)) @ squote @ ''.'')) \<and>
   (run other True env w = None \<longrightarrow> \<not> stop_flag w \<and> (\<forall>k. sleeps env k = Slept)) \<and>
   run other False env w = Some [Error not_available_msg]"
proof (intro conjI impI)
  assume r: "run other True env w = Some sigs"
  then obtain s0 ctx exc where t: "run_try other env w = Some (s0, ctx, exc)"
    and sigs: "sigs = s0 @ run_finally other env w ctx exc"
    by (auto simp: run_def split: option.splits)
  from run_try_no_stopped [OF t] show "stopped_count sigs = 1"
    by (simp add: sigs stopped_count_append stopped_count_finally)
  show "last sigs = Stopped (''Session stopped for '' @ squote
                    @ py_format other (name (profile w)) @ squote @ ''.'')"
    by (simp add: sigs run_finally_nonempty last_run_finally)
next
  assume "run other True env w = None"
  then have "run_try other env w = None"
    by (auto simp: run_def split: option.splits)
  then have h: "\<not> stop_flag w \<and> (\<forall>k. sleeps env k = Slept)" by (rule run_try_returns)
  from h show "\<not> stop_flag w" by blast
  from h show "\<forall>k. sleeps env k = Slept" by blast
next
  show "run other False env w = Some [Error not_available_msg]"
    by (simp add: run_def)
qed

lemma sample_loop: "idle_loop sample_sleeps 0 = Some None"
  using idle_loop.simps [of sample_sleeps 0] idle_loop.simps [of sample_sleeps "Suc 0"]
    idle_loop.simps [of sample_sleeps "Suc (Suc 0)"]
  by (simp add: sample_sleeps_def)

lemma sample_run:
  "run sample_repr True sample_env sample_worker =
     Some [Started_ok (''Session started for '' @ squote @ ''Profile'' @ squote @ ''.''),
           Stopped (''Session stopped for '' @ squote @ ''Profile'' @ squote @ ''.'')]"
  by (simp add: run_def run_try_def run_finally_def worker_opts_def base_opts_def worker_size_def
        to_proxy_dict_def sample_loop sample_worker_def Profile_default_def ProxyConfig_default_def
        py_format_def Let_def sample_env_def)

theorem run_stopped_once_witness:
  "run sample_repr True sample_env sample_worker =
     Some [Started_ok (''Session started for '' @ squote @ ''Profile'' @ squote @ ''.''),
           Stopped (''Session stopped for '' @ squote @ ''Profile'' @ squote @ ''.'')] \<and>
   stopped_count [Started_ok (''Session started for '' @ squote @ ''Profile'' @ squote @ ''.''),
           Stopped (''Session stopped for '' @ squote @ ''Profile'' @ squote @ ''.'')] = 1 \<and>
   run sample_repr False sample_env sample_worker = Some [Error not_available_msg]"
  using run_stopped_once [of sample_repr sample_env sample_worker
     "[Started_ok (''Session started for '' @ squote @ ''Profile'' @ squote @ ''.''),
           Stopped (''Session stopped for '' @ squote @ ''Profile'' @ squote @ ''.'')]"] sample_run
  by blast

text \<open>
  Claim C3 as stated fails when the library is unavailable: the run returns before the
  \<^verbatim>\<open>try\<close> block and emits no \<^verbatim>\<open>stopped\<close> signal.
\<close>

theorem run_unavailable_no_stopped:
  "run sample_repr False sample_env sample_worker = Some [Error not_available_msg] \<and>
   stopped_count [Error not_available_msg] = 0"
  by (simp add: run_def stopped_count_def is_stopped_def)

lemma worker_opts_window:
  "worker_opts other env w = Inr opts \<Longrightarrow> window opts = window (base_opts w)"
  by (auto simp: worker_opts_def Let_def split: if_splits option.splits sum.splits)

lemma launch_new_worker:
  assumes "\<not> worker_running s" and "current_index s \<noteq> - 1" and "launch L True scr s = Inr s'"
  shows "workers s' =
           \<lparr>profile = gather_form L s,
            launch_size = Some (decide_launch_size (gather_form L s) scr),
            stop_flag = False, is_running = True\<rparr> # workers s"
  using assms by (auto simp: launch_def Let_def split: sum.splits)

text \<open>
  Claim C4. The window the worker asks the library for is the size it was launched
  with plus 2 by 88: the available geometry of the screen for a fullscreen profile, the
  viewport of the profile otherwise; and that is the size an accepted launch hands to
  the worker it creates.
\<close>

theorem launch_window_size:
  "(launch_size w = Some (decide_launch_size (profile w) scr) \<and>
    worker_opts other env w = Inr opts \<longrightarrow>
      window opts = (if fullscreen (profile w) then (fst scr + 2, snd scr + 88)
                     else (viewport_width (profile w) + 2, viewport_height (profile w) + 88))) \<and>
   (\<not> worker_running s \<and> current_index s \<noteq> - 1 \<and> launch L True scr s = Inr s' \<longrightarrow>
      launch_size (hd (workers s')) = Some (decide_launch_size (profile (hd (workers s'))) scr))"
proof (intro conjI impI)
  assume a: "launch_size w = Some (decide_launch_size (profile w) scr) \<and>
    worker_opts other env w = Inr opts"
  then have "window opts = window (base_opts w)"
    using worker_opts_window by blast
  with a show "window opts = (if fullscreen (profile w) then (fst scr + 2, snd scr + 88)
                     else (viewport_width (profile w) + 2, viewport_height (profile w) + 88))"
    by (simp add: base_opts_def worker_size_def decide_launch_size_def)
next
  assume "\<not> worker_running s \<and> current_index s \<noteq> - 1 \<and> launch L True scr s = Inr s'"
  then show "launch_size (hd (workers s')) = Some (decide_launch_size (profile (hd (workers s'))) scr)"
    using launch_new_worker [of s L scr s'] by simp
qed

subsection \<open>A sample window\<close>

lemma sample_window_eq:
  "sample_window =
     \<lparr>profiles = [Profile_default\<lparr>name := JStr ''Profile 1'',
                                   persistent_dir := JStr (root_dir @ ''/Profile 1'')\<rparr>],
      current_index = 0, workers = [], form = sample_form,
      profiles_file = Some ''[Profile 1;]'', statusbar = ''New profile created'', boxes = [],
      controls_running = False\<rparr>"
  by (simp add: sample_window_def sample_start_def new_profile_def Let_def sample_lib_def
        save_profiles_def sample_dumps_def to_dict_def dict_get_def py_format_def
        posixpath_join_def root_dir_def str_int_def str_nat.simps digit_char_def)

lemma strip_Work: "strip '' Work '' = ''Work''"
  by (simp add: strip_def is_space_def)

lemma strip_data: "strip ''/data/work'' = ''/data/work''"
  by (simp add: strip_def is_space_def)

lemma strip_Nil: "strip [] = []"
  by (simp add: strip_def)

lemma gather_sample: "gather_form sample_lib sample_window = sample_profile"
  by (simp add: gather_form_def current_def sample_window_eq sample_form_def Let_def
        strip_Work strip_data strip_Nil sample_profile_def Profile_default_def
        ProxyConfig_default_def)

lemma launch_sample: "launch sample_lib True (1920, 1040) sample_window = Inr sample_running"
  unfolding launch_def gather_sample
  by (simp add: sample_window_eq worker_running_def list_set_def Let_def save_profiles_def
        sample_lib_def sample_dumps_def to_dict_def dict_get_def py_format_def
        sample_profile_def decide_launch_size_def sample_running_def)

lemma sample_opts:
  "worker_opts sample_repr sample_env sample_worker =
     Inr \<lparr>headless = False, window = (1282, 888), persistent_context = Some True,
          user_data_dir = Some ''/data/p1'', opt_proxy = None, geoip = None\<rparr>"
  by (simp add: worker_opts_def base_opts_def worker_size_def to_proxy_dict_def
        sample_worker_def Profile_default_def ProxyConfig_default_def Let_def sample_env_def)

lemma sample_opts_fullscreen:
  "worker_opts sample_repr sample_env
     (sample_worker\<lparr>profile := (profile sample_worker)\<lparr>fullscreen := True\<rparr>,
                    launch_size := Some (1920, 1040)\<rparr>) =
     Inr \<lparr>headless = False, window = (1922, 1128), persistent_context = Some True,
          user_data_dir = Some ''/data/p1'', opt_proxy = None, geoip = None\<rparr>"
  by (simp add: worker_opts_def base_opts_def worker_size_def to_proxy_dict_def
        sample_worker_def Profile_default_def ProxyConfig_default_def Let_def sample_env_def)

theorem launch_window_size_witness:
  "launch_size sample_worker = Some (decide_launch_size (profile sample_worker) (1920, 1040)) \<and>
   \<not> fullscreen (profile sample_worker) \<and>
   viewport_width (profile sample_worker) = 1280 \<and> viewport_height (profile sample_worker) = 800 \<and>
   worker_opts sample_repr sample_env sample_worker =
     Inr \<lparr>headless = False, window = (1282, 888), persistent_context = Some True,
          user_data_dir = Some ''/data/p1'', opt_proxy = None, geoip = None\<rparr> \<and>
   worker_opts sample_repr sample_env
     (sample_worker\<lparr>profile := (profile sample_worker)\<lparr>fullscreen := True\<rparr>,
                    launch_size := Some (1920, 1040)\<rparr>) =
     Inr \<lparr>headless = False, window = (1922, 1128), persistent_context = Some True,
          user_data_dir = Some ''/data/p1'', opt_proxy = None, geoip = None\<rparr> \<and>
   \<not> worker_running sample_window \<and> current_index sample_window \<noteq> - 1 \<and>
   launch sample_lib True (1920, 1040) sample_window = Inr sample_running \<and>
   launch_size (hd (workers sample_running)) = Some (1024, 768)"
proof -
  have a: "launch_size sample_worker = Some (decide_launch_size (profile sample_worker) (1920, 1040))"
          "\<not> fullscreen (profile sample_worker)"
          "viewport_width (profile sample_worker) = 1280"
          "viewport_height (profile sample_worker) = 800"
    by (simp_all add: sample_worker_def Profile_default_def decide_launch_size_def)
  have b: "\<not> worker_running sample_window" "current_index sample_window \<noteq> - 1"
    by (simp_all add: sample_window_eq worker_running_def)
  have c: "launch_size (hd (workers sample_running)) = Some (1024, 768)"
    by (simp add: sample_running_def)
  have "window \<lparr>headless = False, window = (1282, 888), persistent_context = Some True,
          user_data_dir = Some ''/data/p1'', opt_proxy = None, geoip = None\<rparr> = (1282, 888)"
    using launch_window_size [of sample_worker "(1920, 1040)" sample_repr sample_env
            "\<lparr>headless = False, window = (1282, 888), persistent_context = Some True,
              user_data_dir = Some ''/data/p1'', opt_proxy = None, geoip = None\<rparr>"
            sample_window sample_lib sample_running] a sample_opts
    by simp
  with a b c sample_opts sample_opts_fullscreen launch_sample show ?thesis by blast
qed

subsection \<open>Persistence\<close>

text \<open>
  Claim C5. When the file exists and its text is no JSON, \<^verbatim>\<open>load_profiles\<close> raises
  \<^verbatim>\<open>JSONDecodeError\<close>, and so does the start of the window that calls it: no list,
  empty or partial, is returned.
\<close>

theorem load_profiles_malformed:
  "json_loads L txt = None \<longrightarrow>
     load_profiles (json_loads L) (path_join L) (Some txt) = Inl JSONDecodeError \<and>
     MainWindow_init L (Some txt) f0 = Inl JSONDecodeError"
  by (simp add: load_profiles_def MainWindow_init_def)

theorem load_profiles_malformed_witness:
  "json_loads sample_lib ''{oops'' = None \<and>
   load_profiles (json_loads sample_lib) (path_join sample_lib) (Some ''{oops'') = Inl JSONDecodeError \<and>
   MainWindow_init sample_lib (Some ''{oops'') sample_form = Inl JSONDecodeError"
proof -
  have h: "json_loads sample_lib ''{oops'' = None"
    by (simp add: sample_lib_def sample_loads_def strip_def is_space_def)
  from load_profiles_malformed [of sample_lib "''{oops''" sample_form] h show ?thesis
    by blast
qed

subsection \<open>Editor\<close>

text \<open>
  Claim C10. With no profile selected, the save action succeeds and does what
  \<^verbatim>\<open>New Profile\<close> does: it appends a profile named \<^verbatim>\<open>Profile n+1\<close>, \<open>n\<close> the length
  of the list, with the storage path joined from the root and that name, and writes the
  whole list to the file.
\<close>

theorem save_changes_without_selection:
  "current_index s = - 1 \<longrightarrow>
     save_changes L s =
       Inr (s\<lparr>profiles :=
                 profiles s @
                 [Profile_default
                    \<lparr>name := JStr (''Profile '' @ str_int (int (length (profiles s)) + 1)),
                     persistent_dir :=
                       JStr (path_join L root_dir
                               (''Profile '' @ str_int (int (length (profiles s)) + 1)))\<rparr>],
              profiles_file :=
                Some (json_dumps L (JList (map to_dict
                  (profiles s @
                   [Profile_default
                      \<lparr>name := JStr (''Profile '' @ str_int (int (length (profiles s)) + 1)),
                       persistent_dir :=
                         JStr (path_join L root_dir
                                 (''Profile '' @ str_int (int (length (profiles s)) + 1)))\<rparr>])))),
              statusbar := ''New profile created''\<rparr>)"
  by (simp add: save_changes_def new_profile_def save_profiles_def Let_def)

theorem save_changes_without_selection_witness:
  "current_index sample_start = - 1 \<and>
   save_changes sample_lib sample_start =
     Inr (sample_start
            \<lparr>profiles := [Profile_default\<lparr>name := JStr ''Profile 1'',
                                          persistent_dir := JStr (root_dir @ ''/Profile 1'')\<rparr>],
             profiles_file := Some ''[Profile 1;]'',
             statusbar := ''New profile created''\<rparr>)"
proof -
  have h: "current_index sample_start = - 1"
    by (simp add: sample_start_def)
  have n: "str_int (int (length (profiles sample_start)) + 1) = ''1''"
    by (simp add: sample_start_def str_int_def str_nat.simps digit_char_def)
  from save_changes_without_selection [of sample_start sample_lib] h show ?thesis
    by (simp add: n)
       (simp add: sample_start_def sample_lib_def sample_dumps_def to_dict_def dict_get_def
          py_format_def posixpath_join_def root_dir_def)
qed

text \<open>
  Claim C9, as the code has it. The save action on a selected profile overwrites the
  slot at the selected index with the gathered form and rewrites the whole file. A
  launch request that is accepted (no worker running, a profile selected) leaves the
  list and the file exactly as the save action would; a rejected launch, a stop
  request, the \<^verbatim>\<open>stopped\<close> notification, the end of a thread and a change of the
  widgets leave both unchanged.
\<close>

theorem launch_persists_like_save:
  "(current_index s \<noteq> - 1 \<and> save_changes L s = Inr s2 \<longrightarrow>
      list_set (profiles s) (current_index s) (gather_form L s) = Inr (profiles s2) \<and>
      profiles_file s2 = Some (json_dumps L (JList (map to_dict (profiles s2))))) \<and>
   (\<not> worker_running s \<and> current_index s \<noteq> - 1 \<longrightarrow>
      store_of (launch L ok scr s) = store_of (save_changes L s)) \<and>
   (worker_running s \<or> current_index s = - 1 \<longrightarrow>
      (\<exists>s'. launch L ok scr s = Inr s') \<and> store_unchanged s (launch L ok scr s)) \<and>
   store_unchanged s (Inr (stop fin s)) \<and>
   store_unchanged s (Inr (on_stopped msg s)) \<and>
   store_unchanged s (Inr (thread_finished i s)) \<and>
   store_unchanged s (Inr (s\<lparr>form := f, current_index := j\<rparr>))"
proof (intro conjI impI)
  assume a: "current_index s \<noteq> - 1 \<and> save_changes L s = Inr s2"
  then show "list_set (profiles s) (current_index s) (gather_form L s) = Inr (profiles s2)"
    by (auto simp: save_changes_def split: sum.splits)
  from a show "profiles_file s2 = Some (json_dumps L (JList (map to_dict (profiles s2))))"
    by (auto simp: save_changes_def save_profiles_def split: sum.splits)
next
  assume "\<not> worker_running s \<and> current_index s \<noteq> - 1"
  then show "store_of (launch L ok scr s) = store_of (save_changes L s)"
    by (simp add: launch_def save_changes_def store_of_def Let_def split: sum.splits)
next
  assume a: "worker_running s \<or> current_index s = - 1"
  then show "\<exists>s'. launch L ok scr s = Inr s'"
    by (auto simp: launch_def)
  from a show "store_unchanged s (launch L ok scr s)"
    by (auto simp: launch_def store_unchanged_def)
next
  show "store_unchanged s (Inr (stop fin s))"
    by (simp add: stop_def store_unchanged_def split: list.splits)
  show "store_unchanged s (Inr (on_stopped msg s))"
    by (simp add: on_stopped_def store_unchanged_def)
  show "store_unchanged s (Inr (thread_finished i s))"
    by (simp add: thread_finished_def store_unchanged_def)
  show "store_unchanged s (Inr (s\<lparr>form := f, current_index := j\<rparr>))"
    by (simp add: store_unchanged_def)
qed

lemma save_sample:
  "save_changes sample_lib sample_window =
     Inr (sample_window\<lparr>profiles := [sample_profile], profiles_file := Some ''[Work;]'',
                         statusbar := ''Profile saved''\<rparr>)"
  unfolding save_changes_def gather_sample
  by (simp add: sample_window_eq list_set_def Let_def save_profiles_def
        sample_lib_def sample_dumps_def to_dict_def dict_get_def py_format_def
        sample_profile_def)

theorem launch_persists_like_save_witness:
  "\<not> worker_running sample_window \<and> current_index sample_window \<noteq> - 1 \<and>
   save_changes sample_lib sample_window =
     Inr (sample_window\<lparr>profiles := [sample_profile], profiles_file := Some ''[Work;]'',
                         statusbar := ''Profile saved''\<rparr>) \<and>
   store_of (launch sample_lib True (1920, 1040) sample_window) =
     Inr ([sample_profile], Some ''[Work;]'') \<and>
   worker_running sample_running \<and>
   store_unchanged sample_running (launch sample_lib True (1920, 1040) sample_running)"
proof -
  have b: "\<not> worker_running sample_window" "current_index sample_window \<noteq> - 1"
    by (simp_all add: sample_window_eq worker_running_def)
  have r: "worker_running sample_running"
    by (simp add: sample_running_def worker_running_def)
  have s: "store_of (save_changes sample_lib sample_window) = Inr ([sample_profile], Some ''[Work;]'')"
    by (simp add: save_sample store_of_def)
  from launch_persists_like_save [of sample_window sample_lib
         "sample_window\<lparr>profiles := [sample_profile], profiles_file := Some ''[Work;]'',
                         statusbar := ''Profile saved''\<rparr>" True "(1920, 1040)"] b s
  have 1: "store_of (launch sample_lib True (1920, 1040) sample_window) =
     Inr ([sample_profile], Some ''[Work;]'')"
    by simp
  from launch_persists_like_save [of sample_running sample_lib sample_running True "(1920, 1040)"] r
  have 2: "store_unchanged sample_running (launch sample_lib True (1920, 1040) sample_running)"
    by blast
  from b r save_sample 1 2 show ?thesis by blast
qed

text \<open>
  Claim C9 as stated fails: a launch request on the sample window, whose form was
  edited after the profile was created, replaces the stored profile and rewrites the
  file.
\<close>

theorem launch_changes_store:
  "\<not> store_unchanged sample_window (launch sample_lib True (1920, 1040) sample_window)"
proof -
  have "profiles sample_running \<noteq> profiles sample_window"
    by (simp add: sample_running_def sample_window_eq sample_profile_def Profile_default_def)
  then show ?thesis
    by (simp add: launch_sample store_unchanged_def)
qed

subsection \<open>One session at a time\<close>

lemma only_head_active: "only_head_runs s \<Longrightarrow> active_workers s \<le> 1"
  by (cases "workers s") (auto simp: only_head_runs_def active_workers_def filter_empty_conv)

lemma active_is_head: "only_head_runs s \<Longrightarrow> 0 < active_workers s \<Longrightarrow> worker_running s"
  by (cases "workers s")
     (auto simp: only_head_runs_def active_workers_def worker_running_def filter_empty_conv
           split: if_splits)

lemma in_set_tl: "x \<in> set (tl xs) \<Longrightarrow> x \<in> set xs"
  by (cases xs) auto

lemma launch_only_head:
  assumes "only_head_runs s" and "launch L ok scr s = Inr s'"
  shows "only_head_runs s'"
proof (cases "worker_running s \<or> current_index s = - 1")
  case True
  with assms show ?thesis
    by (auto simp: launch_def only_head_runs_def split: if_splits)
next
  case False
  then have nr: "\<forall>w \<in> set (workers s). \<not> is_running w"
    using assms(1)
    by (cases "workers s") (auto simp: worker_running_def only_head_runs_def)
  from False assms(2) have "workers s' = workers s \<or> tl (workers s') = workers s"
    by (auto simp: launch_def Let_def split: sum.splits if_splits)
  with nr show ?thesis
    by (auto simp: only_head_runs_def dest: in_set_tl)
qed

lemma step_only_head:
  assumes "step L s s'" and "only_head_runs s"
  shows "only_head_runs s'"
  using assms
proof (induction rule: step.induct)
  case (step_launch ok screen s s')
  then show ?case using launch_only_head by blast
next
  case (step_stop s fin)
  then show ?case
    by (auto simp: stop_def only_head_runs_def split: list.splits)
next
  case (step_on_stopped s msg)
  then show ?case by (simp add: on_stopped_def only_head_runs_def)
next
  case (step_save s s')
  then show ?case
    by (auto simp: save_changes_def new_profile_def Let_def only_head_runs_def
             split: if_splits sum.splits)
next
  case (step_new s)
  then show ?case by (simp add: new_profile_def Let_def only_head_runs_def)
next
  case (step_delete row yes cleared s s')
  then show ?case
    by (auto simp: delete_profile_def Let_def only_head_runs_def split: if_splits sum.splits)
next
  case step_widgets
  then show ?case by (simp add: only_head_runs_def)
next
  case (step_finished s i)
  show ?case
  proof (cases "i < length (workers s)")
    case False
    with step_finished show ?thesis by (simp add: thread_finished_def)
  next
    case True
    have "\<not> is_running w" if "w \<in> set (tl (workers s'))"
      and "s' = thread_finished i s" for w s'
    proof -
      from that True have "w \<in> set (tl ((workers s)[i := (workers s ! i)\<lparr>is_running := False\<rparr>]))"
        by (simp add: thread_finished_def)
      then have "w \<in> set (tl (workers s)) \<or> w = (workers s ! i)\<lparr>is_running := False\<rparr>"
        by (cases "workers s"; cases i) (auto dest: set_update_subset_insert [THEN subsetD])
      with step_finished show ?thesis
        by (auto simp: only_head_runs_def)
    qed
    then show ?thesis by (simp add: only_head_runs_def)
  qed
qed

lemma reachable_only_head: "reachable L s \<Longrightarrow> only_head_runs s"
proof (induction rule: reachable.induct)
  case (reach_init fl f0 s)
  then show ?case
    by (auto simp: MainWindow_init_def only_head_runs_def split: sum.splits)
next
  case (reach_step s s')
  then show ?case using step_only_head by blast
qed

text \<open>
  Claim C7. In every state the application can reach, at most one worker is running;
  a launch request made while a worker is running changes nothing but the status
  message, so no worker is created or queued; and after any launch request at most one
  worker is running.
\<close>

theorem single_session:
  "reachable L s \<longrightarrow>
     active_workers s \<le> 1 \<and>
     (0 < active_workers s \<longrightarrow>
        launch L ok scr s = Inr (s\<lparr>statusbar := ''A session is already running''\<rparr>)) \<and>
     (launch L ok scr s = Inr s' \<longrightarrow> active_workers s' \<le> 1)"
proof (intro impI conjI)
  assume r: "reachable L s"
  then show "active_workers s \<le> 1"
    using reachable_only_head only_head_active by blast
  show "launch L ok scr s = Inr (s\<lparr>statusbar := ''A session is already running''\<rparr>)"
    if "0 < active_workers s"
  proof -
    from r that have "worker_running s"
      using reachable_only_head active_is_head by blast
    then show ?thesis by (simp add: launch_def)
  qed
  show "active_workers s' \<le> 1" if "launch L ok scr s = Inr s'"
    using that r reachable_only_head launch_only_head only_head_active by blast
qed

lemma reachable_sample_running: "reachable sample_lib sample_running"
proof -
  have "MainWindow_init sample_lib None sample_form = Inr sample_start"
    by (simp add: MainWindow_init_def load_profiles_def sample_start_def)
  then have "reachable sample_lib sample_start" by (rule reach_init)
  then have "reachable sample_lib (new_profile sample_lib sample_start)"
    using step_new by (rule reach_step)
  then have "reachable sample_lib sample_window"
    unfolding sample_window_def using step_widgets by (rule reach_step)
  then show ?thesis
    using step_launch [OF launch_sample] by (rule reach_step)
qed

theorem single_session_witness:
  "reachable sample_lib sample_running \<and>
   active_workers sample_running = 1 \<and>
   launch sample_lib True (1920, 1040) sample_running =
     Inr (sample_running\<lparr>statusbar := ''A session is already running''\<rparr>) \<and>
   active_workers (sample_running\<lparr>statusbar := ''A session is already running''\<rparr>) \<le> 1"
proof -
  have a: "active_workers sample_running = 1"
    by (simp add: sample_running_def active_workers_def)
  then have p: "0 < active_workers sample_running" by simp
  from single_session [of sample_lib sample_running True "(1920, 1040)"
         "sample_running\<lparr>statusbar := ''A session is already running''\<rparr>"]
       reachable_sample_running p a
  show ?thesis by blast
qed

end
